theory Spec2Isabelle
  imports Main
begin

section \<open>Data model\<close>

text \<open>
  The presentation layer of the game is TypeScript. Numbers that cross the boundary to
  the simulation engine (letter codes, coordinates, indices, millisecond timestamps) are
  modelled as \<open>int\<close>: the specification's data model declares every one of them an
  integer. A JavaScript value that may be \<^verbatim>\<open>null\<close> or \<^verbatim>\<open>undefined\<close> is an \<open>option\<close>.
\<close>

text \<open>
  \<^verbatim>\<open>interface Position { x: number; y: number }\<close>. The fields are called \<open>pos_x\<close> and
  \<open>pos_y\<close> here, so that \<open>x\<close> and \<open>y\<close> stay usable as variables.
\<close>

record Position =
  pos_x :: int
  pos_y :: int

subsection \<open>Errors\<close>

text \<open>
  What the code can throw. \<open>TypeError\<close> is JavaScript's own error for a property read on
  \<^verbatim>\<open>undefined\<close>; \<open>InvalidLetterIndexInWord\<close> is the \<^verbatim>\<open>Error\<close> that \<^verbatim>\<open>getWord\<close>
  throws with the message \<^verbatim>\<open>Invalid letter index in word: <index>\<close>; \<open>EngineError\<close> is
  whatever the simulation engine's \<^verbatim>\<open>tick\<close> throws. A computation that may throw returns
  \<open>error + 'a\<close>, with \<open>Inl\<close> for the exception.
\<close>

datatype error =
  TypeError
  | InvalidLetterIndexInWord int
  | EngineError string

section \<open>Input event buffer: userEvents.svelte.ts\<close>

text \<open>
  The two \<^verbatim>\<open>$state\<close> variables of \<^verbatim>\<open>createUserEventsState\<close>: \<^verbatim>\<open>userClicks\<close>, initially
  \<^verbatim>\<open>[]\<close>, and \<^verbatim>\<open>lastHovered\<close>, initially \<^verbatim>\<open>null\<close>.
\<close>

record UserEventsState =
  userClicks :: "Position list"
  lastHovered :: "Position option"

definition createUserEventsState :: UserEventsState where
  "createUserEventsState = \<lparr>userClicks = [], lastHovered = None\<rparr>"

text \<open>\<^verbatim>\<open>click(position) { userClicks = [...userClicks, position]; }\<close>\<close>

definition click :: "Position \<Rightarrow> UserEventsState \<Rightarrow> UserEventsState" where
  "click position s = s\<lparr>userClicks := userClicks s @ [position]\<rparr>"

text \<open>\<^verbatim>\<open>hover(position) { lastHovered = position; }\<close>\<close>

definition hover :: "Position \<Rightarrow> UserEventsState \<Rightarrow> UserEventsState" where
  "hover position s = s\<lparr>lastHovered := Some position\<rparr>"

text \<open>
  \<^verbatim>\<open>extractUserClicks() { const clicks = userClicks; userClicks = []; return clicks; }\<close>:
  the returned value and the state afterwards.
\<close>

definition extractUserClicks :: "UserEventsState \<Rightarrow> Position list \<times> UserEventsState" where
  "extractUserClicks s = (let clicks = userClicks s in (clicks, s\<lparr>userClicks := []\<rparr>))"

text \<open>
  The operations the rest of the program performs on the buffer: the rendering layer
  calls \<^verbatim>\<open>click\<close> and \<^verbatim>\<open>hover\<close> (the \<^verbatim>\<open>UserEventsContext\<close> interface), the frame driver
  calls \<^verbatim>\<open>extractUserClicks\<close> and reads the getter \<^verbatim>\<open>lastHovered\<close>, which has no
  assignment in its body.
\<close>

datatype UserEventsOp =
  OpClick Position
  | OpHover Position
  | OpExtractUserClicks
  | OpReadLastHovered

fun run_op :: "UserEventsOp \<Rightarrow> UserEventsState \<Rightarrow> UserEventsState" where
  "run_op (OpClick p) s = click p s"
| "run_op (OpHover p) s = hover p s"
| "run_op OpExtractUserClicks s = snd (extractUserClicks s)"
| "run_op OpReadLastHovered s = s"

fun is_hover :: "UserEventsOp \<Rightarrow> bool" where
  "is_hover (OpHover p) = True"
| "is_hover other = False"

text \<open>The positions clicked in a run of \<^verbatim>\<open>click\<close> and \<^verbatim>\<open>hover\<close> calls, in arrival order.\<close>

fun clicked :: "UserEventsOp list \<Rightarrow> Position list" where
  "clicked [] = []"
| "clicked (OpClick p # ops) = p # clicked ops"
| "clicked (other # ops) = clicked ops"

fun is_record_op :: "UserEventsOp \<Rightarrow> bool" where
  "is_record_op (OpClick p) = True"
| "is_record_op (OpHover p) = True"
| "is_record_op other = False"

section \<open>Letter resolution: letterTable.svelte.ts\<close>

text \<open>
  Modelled from the spec: the engine's \<^verbatim>\<open>LettersTable\<close> class and the free function
  \<^verbatim>\<open>is_empty_cell\<close> live in the WebAssembly module \<^verbatim>\<open>$lib/wasm/golden_core\<close>, which is
  not part of the sources. The specification gives their contract:
  \<^verbatim>\<open>tryGetChar(code) -> char|none\<close>, \<^verbatim>\<open>tryGetScore(code) -> integer|none\<close> and
  \<^verbatim>\<open>isEmptyCell(code) -> bool\<close>, a pure function of the code. The table is therefore a
  pair of partial functions, and \<^verbatim>\<open>is_empty_cell\<close> is a parameter of every function
  that calls it.
\<close>

record LettersTable =
  try_get_letter_char :: "int \<Rightarrow> string option"
  try_get_letter_score :: "int \<Rightarrow> int option"

text \<open>
  \<^verbatim>\<open>interface LettersTableContext { getLetter: ...; getScore: ... }\<close>. The fields carry
  the prefix \<open>ctx_\<close> because \<^verbatim>\<open>getLetter\<close> is also the name of the exported function.
  At run time the two closures return what the table returns, which may be
  \<^verbatim>\<open>undefined\<close>, whatever the interface declares.
\<close>

record LettersTableContext =
  ctx_getLetter :: "int \<Rightarrow> string option"
  ctx_getScore :: "int \<Rightarrow> int option"

text \<open>
  \<^verbatim>\<open>initLettersTableContext\<close> stores the context under a key with Svelte's
  \<^verbatim>\<open>setContext\<close>; \<^verbatim>\<open>getContext\<close> returns it, or \<^verbatim>\<open>undefined\<close> when nothing was stored.
  The store is an \<open>option\<close> that is passed to the functions that read it.
\<close>

definition initLettersTableContext :: "LettersTable \<Rightarrow> LettersTableContext option" where
  "initLettersTableContext lettersTable =
     Some \<lparr>ctx_getLetter = (\<lambda>index. try_get_letter_char lettersTable index),
           ctx_getScore = (\<lambda>index. try_get_letter_score lettersTable index)\<rparr>"

text \<open>
  \<^verbatim>\<open>interface Letter { index: number; char: string; score: number }\<close>, with the character
  and the score as the table returned them.
\<close>

record Letter =
  index :: int
  char :: "string option"
  score :: "int option"

text \<open>The calls that reach the resolution table, in the order they are made.\<close>

datatype TableCall =
  CallGetLetter int
  | CallGetScore int

text \<open>
  \<^verbatim>\<open>getLetter(index)\<close>: \<^verbatim>\<open>null\<close> for an empty cell, before the context is even read;
  otherwise the object literal, whose fields are evaluated in order. Reading
  \<^verbatim>\<open>context.getLetter\<close> on an \<^verbatim>\<open>undefined\<close> context is a \<open>TypeError\<close>. The second
  component is the list of table calls made.
\<close>

definition getLetter ::
  "(int \<Rightarrow> bool) \<Rightarrow> LettersTableContext option \<Rightarrow> int
     \<Rightarrow> (error + Letter option) \<times> TableCall list" where
  "getLetter is_empty_cell ctx i =
     (if is_empty_cell i then (Inr None, [])
      else
        (case ctx of
           None \<Rightarrow> (Inl TypeError, [])
         | Some c \<Rightarrow>
             (Inr (Some \<lparr>index = i, char = ctx_getLetter c i, score = ctx_getScore c i\<rparr>),
              [CallGetLetter i, CallGetScore i])))"

text \<open>
  \<^verbatim>\<open>getWord(letters)\<close>: \<^verbatim>\<open>Array.prototype.map\<close> visits the codes from left to right, and
  the first exception ends it.
\<close>

fun getWord ::
  "(int \<Rightarrow> bool) \<Rightarrow> LettersTableContext option \<Rightarrow> int list
     \<Rightarrow> (error + Letter list) \<times> TableCall list" where
  "getWord is_empty_cell ctx [] = (Inr [], [])"
| "getWord is_empty_cell ctx (i # rest) =
     (case getLetter is_empty_cell ctx i of
        (Inl e, calls) \<Rightarrow> (Inl e, calls)
      | (Inr None, calls) \<Rightarrow> (Inl (InvalidLetterIndexInWord i), calls)
      | (Inr (Some letter), calls) \<Rightarrow>
          (case getWord is_empty_cell ctx rest of
             (Inl e, calls') \<Rightarrow> (Inl e, calls @ calls')
           | (Inr word, calls') \<Rightarrow> (Inr (letter # word), calls @ calls')))"

section \<open>Triplets slice: triplets.svelte.ts\<close>

text \<open>
  Reading a JavaScript array at an index: the element when the index is one of
  \<open>0, ..., length - 1\<close>, and \<^verbatim>\<open>undefined\<close> at every other number. Nothing is thrown.
\<close>

definition js_index :: "'a list \<Rightarrow> int \<Rightarrow> 'a option" where
  "js_index xs i = (if 0 \<le> i \<and> i < int (length xs) then Some (xs ! nat i) else None)"

text \<open>
  \<^verbatim>\<open>interface Triplet { letter1: number; letter2: number; letter3: number }\<close>. The
  constructor loop reads \<^verbatim>\<open>rawTriplets[i + 1]\<close> and \<^verbatim>\<open>rawTriplets[i + 2]\<close> without a
  check, so a field is \<^verbatim>\<open>undefined\<close> when the raw length is not a multiple of three.
\<close>

record Triplet =
  letter1 :: "int option"
  letter2 :: "int option"
  letter3 :: "int option"

text \<open>\<^verbatim>\<open>for (let i = 0; i < rawTriplets.length; i += 3) { triplets.push({...}); }\<close>\<close>

function build_triplets :: "int list \<Rightarrow> nat \<Rightarrow> Triplet list \<Rightarrow> Triplet list" where
  "build_triplets rawTriplets i triplets =
     (if i < length rawTriplets
      then build_triplets rawTriplets (i + 3)
             (triplets @ [\<lparr>letter1 = js_index rawTriplets (int i),
                            letter2 = js_index rawTriplets (int i + 1),
                            letter3 = js_index rawTriplets (int i + 2)\<rparr>])
      else triplets)"
  by pat_completeness auto
termination
  by (relation "measure (\<lambda>(rawTriplets, i, triplets). length rawTriplets - i)") auto

declare build_triplets.simps [simp del]

text \<open>
  The closure of \<^verbatim>\<open>createTripletsState\<close>: the constant \<^verbatim>\<open>triplets\<close> and the
  \<^verbatim>\<open>$state\<close> variable \<^verbatim>\<open>currentIndex\<close>, initially 0.
\<close>

record TripletsState =
  triplets :: "Triplet list"
  currentIndex :: int

definition createTripletsState :: "int list \<Rightarrow> TripletsState" where
  "createTripletsState rawTriplets =
     \<lparr>triplets = build_triplets rawTriplets 0 [], currentIndex = 0\<rparr>"

text \<open>
  \<^verbatim>\<open>get next() { return triplets[currentIndex]; }\<close>. The getter is called \<open>next_triplet\<close>
  because \<open>next\<close> is a keyword of Isabelle. Its result has the type of a computation
  that may throw, so that throwing and returning \<^verbatim>\<open>undefined\<close> are told apart.
\<close>

definition next_triplet :: "TripletsState \<Rightarrow> error + Triplet option" where
  "next_triplet s = Inr (js_index (triplets s) (currentIndex s))"

text \<open>\<^verbatim>\<open>get total() { return triplets.length; }\<close>\<close>

definition total_triplets :: "TripletsState \<Rightarrow> nat" where
  "total_triplets s = length (triplets s)"

text \<open>\<^verbatim>\<open>updateIndex(newIndex) { currentIndex = newIndex; }\<close>\<close>

definition updateIndex :: "int \<Rightarrow> TripletsState \<Rightarrow> TripletsState" where
  "updateIndex newIndex s = s\<lparr>currentIndex := newIndex\<rparr>"

section \<open>Grid reconstruction: transformToGrid\<close>

text \<open>
  Modelled from the spec: the engine's \<^verbatim>\<open>Cell\<close> class is declared in the WebAssembly
  module. The specification's cell record is
  \<^verbatim>\<open>{ position, letterCode, pathingStatus: enum{None, Path, Blocked} }\<close>; the components
  read \<^verbatim>\<open>cell.position\<close>, \<^verbatim>\<open>cell.letter\<close> and \<^verbatim>\<open>cell.pathing_status\<close>.
\<close>

datatype CellPathingStatus =
  PathingNone
  | Path
  | Blocked

record Cell =
  position :: Position
  letter :: int
  pathing_status :: CellPathingStatus

text \<open>
  \<^verbatim>\<open>interface Grid { [x: number]: { [y: number]: WasmCell } }\<close>: an object of objects,
  a property that was never assigned being \<^verbatim>\<open>undefined\<close>.
\<close>

type_synonym Grid = "int \<rightharpoonup> (int \<rightharpoonup> Cell)"

text \<open>
  The callback of \<^verbatim>\<open>raw.reduce\<close>. An object is truthy, so \<^verbatim>\<open>!cells[x]\<close> holds exactly
  when \<^verbatim>\<open>cells[x]\<close> is \<^verbatim>\<open>undefined\<close>.
\<close>

definition grid_step :: "Grid \<Rightarrow> Cell \<Rightarrow> Grid" where
  "grid_step cells rawCell =
     (let x = pos_x (position rawCell);
          y = pos_y (position rawCell);
          cells1 = (if cells x = None then cells(x \<mapsto> Map.empty) else cells)
      in (case cells1 x of
            None \<Rightarrow> cells1
          | Some col \<Rightarrow> cells1(x \<mapsto> col(y \<mapsto> rawCell))))"

definition transformToGrid :: "Cell list \<Rightarrow> Grid" where
  "transformToGrid raw = foldl grid_step Map.empty raw"

text \<open>The entry \<^verbatim>\<open>grid[x][y]\<close>, when there is one.\<close>

definition grid_entry :: "Grid \<Rightarrow> int \<Rightarrow> int \<Rightarrow> Cell option" where
  "grid_entry g x y = (case g x of None \<Rightarrow> None | Some col \<Rightarrow> col y)"

text \<open>The last record of a list that stands at a given position.\<close>

definition last_at :: "Cell list \<Rightarrow> int \<Rightarrow> int \<Rightarrow> Cell option" where
  "last_at raw x y =
     find (\<lambda>c. pos_x (position c) = x \<and> pos_y (position c) = y) (rev raw)"

section \<open>State slices\<close>

text \<open>
  Each slice is the closure of its \<^verbatim>\<open>create...State\<close> function: a record of the
  variables it closes over, a getter being the field itself. Every slice calls its
  mutator \<^verbatim>\<open>update\<close>; the four are told apart here by the slice's name.
\<close>

text \<open>
  \<^verbatim>\<open>createClockState(maxMs)\<close>; the constant \<^verbatim>\<open>max\<close> is the field \<open>max_ms\<close>, since \<open>max\<close>
  is the maximum of two numbers in HOL.
\<close>

record ClockState =
  max_ms :: int
  remaining :: int

definition createClockState :: "int \<Rightarrow> ClockState" where
  "createClockState maxMs = \<lparr>max_ms = maxMs, remaining = maxMs\<rparr>"

definition clock_update :: "int \<Rightarrow> ClockState \<Rightarrow> ClockState" where
  "clock_update newRemaining s = s\<lparr>remaining := newRemaining\<rparr>"

record GridState =
  grid :: "Grid option"

definition createGridState :: GridState where
  "createGridState = \<lparr>grid = None\<rparr>"

definition grid_update :: "Grid option \<Rightarrow> GridState \<Rightarrow> GridState" where
  "grid_update newGrid s = s\<lparr>grid := newGrid\<rparr>"

record ScoreState =
  current :: int

definition createScoreState :: ScoreState where
  "createScoreState = \<lparr>current = 0\<rparr>"

definition score_update :: "int \<Rightarrow> ScoreState \<Rightarrow> ScoreState" where
  "score_update newScore s = s\<lparr>current := newScore\<rparr>"

text \<open>
  Modelled from the spec: \<^verbatim>\<open>FoundWord\<close> is a class of the WebAssembly module; the
  specification describes it as an ordered sequence of letter codes with its score.
\<close>

type_synonym FoundWord = "int list \<times> int"

record FoundWordsState =
  words :: "FoundWord list"

definition createFoundWordsState :: FoundWordsState where
  "createFoundWordsState = \<lparr>words = []\<rparr>"

definition foundWords_update :: "FoundWord list \<Rightarrow> FoundWordsState \<Rightarrow> FoundWordsState" where
  "foundWords_update newWords s = s\<lparr>words := newWords\<rparr>"

record GoldenState =
  golden :: "int list"
  goldenWordScore :: int

definition createGoldenState :: "int list \<Rightarrow> int \<Rightarrow> GoldenState" where
  "createGoldenState goldenCodes score0 = \<lparr>golden = goldenCodes, goldenWordScore = score0\<rparr>"

text \<open>\<^verbatim>\<open>isGolden = (letter) => golden.includes(letter)\<close>\<close>

definition isGolden :: "GoldenState \<Rightarrow> int \<Rightarrow> bool" where
  "isGolden s l = List.member (golden s) l"

section \<open>Frame driver: createGameState and tick\<close>

text \<open>
  Modelled from the spec: the simulation engine is the class \<^verbatim>\<open>Game\<close> of the
  WebAssembly module. The record holds what the driver reads from it (the methods
  \<^verbatim>\<open>triplets()\<close>, \<^verbatim>\<open>golden_word()\<close> and \<^verbatim>\<open>get_letters_table()\<close> as the fields
  \<open>wasm_triplets\<close>, \<open>golden_word\<close> and \<open>letters_table\<close>, the property \<^verbatim>\<open>score\<close> as
  \<open>wasm_score\<close>); \<open>internal\<close> is the rest of the engine's state. A snapshot is what
  \<^verbatim>\<open>tick\<close> returns: \<^verbatim>\<open>clock_remaining_ms\<close>, \<^verbatim>\<open>grid()\<close> and \<^verbatim>\<open>found_words()\<close>.
\<close>

record Snapshot =
  clock_remaining_ms :: int
  snapshot_grid :: "Cell list"
  found_words :: "FoundWord list"

record 'e WasmGame =
  clock_max_ms :: int
  wasm_triplets :: "int list"
  golden_word :: "int list"
  golden_word_score :: int
  letters_table :: LettersTable
  wasm_score :: int
  triplets_current_index :: int
  internal :: 'e

text \<open>
  The engine's step \<^verbatim>\<open>wasmGame.tick(delta, clicks, hover)\<close> is a parameter of the
  driver: it throws, or it returns a snapshot and leaves the engine in a new state.
\<close>

type_synonym 'e engine =
  "'e WasmGame \<Rightarrow> int \<Rightarrow> Position list \<Rightarrow> Position option
     \<Rightarrow> error + (Snapshot \<times> 'e WasmGame)"

text \<open>
  The closure of \<^verbatim>\<open>createGameState\<close>: the slices, the buffer, the engine, the letters
  table context and \<^verbatim>\<open>lastFrame\<close>. Two fields record the driver's calls to its
  environment: \<open>frameRequests\<close> counts the calls of \<^verbatim>\<open>requestAnimationFrame(tick)\<close>,
  and \<open>engineCalls\<close> lists the arguments of every call of the engine's step.
\<close>

record 'e GameState =
  st_clock :: ClockState
  st_grid :: GridState
  st_score :: ScoreState
  st_triplets :: TripletsState
  st_foundWords :: FoundWordsState
  st_golden :: GoldenState
  st_userEvents :: UserEventsState
  st_lettersTable :: "LettersTableContext option"
  wasmGame :: "'e WasmGame"
  lastFrame :: int
  frameRequests :: nat
  engineCalls :: "(int \<times> Position list \<times> Position option) list"

definition createGameState :: "'e WasmGame \<Rightarrow> 'e GameState" where
  "createGameState g =
     \<lparr>st_clock = createClockState (clock_max_ms g),
      st_grid = createGridState,
      st_score = createScoreState,
      st_triplets = createTripletsState (wasm_triplets g),
      st_foundWords = createFoundWordsState,
      st_golden = createGoldenState (golden_word g) (golden_word_score g),
      st_userEvents = createUserEventsState,
      st_lettersTable = initLettersTableContext (letters_table g),
      wasmGame = g,
      lastFrame = 0,
      frameRequests = 1,
      engineCalls = []\<rparr>"

text \<open>
  \<^verbatim>\<open>function tick(now)\<close>. The arguments of the engine call are evaluated from left to
  right, so the clicks are drained before the hover is read, and both before the engine
  runs. An exception of the engine leaves \<^verbatim>\<open>tick\<close> at once: the result is the state as
  it stands then, and the exception.
\<close>

definition tick :: "'e engine \<Rightarrow> int \<Rightarrow> 'e GameState \<Rightarrow> 'e GameState \<times> (error + unit)" where
  "tick eng now st =
     (let lastFrame1 = (if lastFrame st = 0 then now else lastFrame st);
          delta = now - lastFrame1;
          st1 = st\<lparr>lastFrame := now\<rparr>;
          (clicks, events) = extractUserClicks (st_userEvents st1);
          st2 = st1\<lparr>st_userEvents := events\<rparr>;
          hovered = lastHovered (st_userEvents st2);
          st3 = st2\<lparr>engineCalls := engineCalls st2 @ [(delta, clicks, hovered)]\<rparr>
      in (case eng (wasmGame st3) delta clicks hovered of
            Inl e \<Rightarrow> (st3, Inl e)
          | Inr (snapshot, g) \<Rightarrow>
              (st3\<lparr>wasmGame := g,
                   st_clock := clock_update (clock_remaining_ms snapshot) (st_clock st3),
                   st_grid := grid_update (Some (transformToGrid (snapshot_grid snapshot))) (st_grid st3),
                   st_score := score_update (wasm_score g) (st_score st3),
                   st_triplets := updateIndex (triplets_current_index g) (st_triplets st3),
                   st_foundWords := foundWords_update (found_words snapshot) (st_foundWords st3),
                   frameRequests := Suc (frameRequests st3)\<rparr>,
               Inr ())))"

text \<open>The deltas the engine was called with, oldest first.\<close>

definition deltas :: "'e GameState \<Rightarrow> int list" where
  "deltas st = map fst (engineCalls st)"

text \<open>
  The host calling \<^verbatim>\<open>tick\<close> once per timestamp of a list, whatever each call returns.
\<close>

definition ticks :: "'e engine \<Rightarrow> int list \<Rightarrow> 'e GameState \<Rightarrow> 'e GameState" where
  "ticks eng nows st = fold (\<lambda>now s. fst (tick eng now s)) nows st"

section \<open>Example inputs\<close>

text \<open>
  A table with entries for the codes 5 and 7 only, a sentinel test that takes 0 for the
  empty code, an engine state, a cell, and an engine that counts the clock down and
  scores the clicks, and throws on a negative delta.
\<close>

definition demo_table :: LettersTable where
  "demo_table =
     \<lparr>try_get_letter_char = (\<lambda>i. if i = 5 then Some ''E'' else if i = 7 then Some ''G'' else None),
      try_get_letter_score = (\<lambda>i. if i = 5 then Some 1 else if i = 7 then Some 2 else None)\<rparr>"

definition demo_is_empty_cell :: "int \<Rightarrow> bool" where
  "demo_is_empty_cell c = (c = 0)"

definition demo_game :: "unit WasmGame" where
  "demo_game =
     \<lparr>clock_max_ms = 20000,
      wasm_triplets = [5, 7, 5, 7, 5, 7],
      golden_word = [5, 7],
      golden_word_score = 10,
      letters_table = demo_table,
      wasm_score = 0,
      triplets_current_index = 0,
      internal = ()\<rparr>"

definition demo_cell :: "int \<Rightarrow> int \<Rightarrow> int \<Rightarrow> Cell" where
  "demo_cell x y l = \<lparr>position = \<lparr>pos_x = x, pos_y = y\<rparr>, letter = l, pathing_status = PathingNone\<rparr>"

definition demo_engine :: "unit engine" where
  "demo_engine g delta clicks hovered =
     (if delta < 0 then Inl (EngineError ''negative delta'')
      else Inr (\<lparr>clock_remaining_ms = clock_max_ms g - delta,
                 snapshot_grid = [demo_cell 0 0 5, demo_cell 0 1 0, demo_cell 1 0 7],
                 found_words = [([5, 7], 3)]\<rparr>,
                g\<lparr>wasm_score := wasm_score g + int (length clicks),
                  triplets_current_index := triplets_current_index g + 1\<rparr>))"

section \<open>Properties of the input event buffer\<close>

lemma userClicks_fold_click:
  "userClicks (fold click ps s) = userClicks s @ ps"
  by (induction ps arbitrary: s) (simp_all add: click_def)

lemma userClicks_fold_run_op:
  "list_all is_record_op ops \<Longrightarrow>
   userClicks (fold run_op ops s) = userClicks s @ clicked ops"
proof (induction ops arbitrary: s)
  case Nil
  show ?case by simp
next
  case (Cons op ops)
  then show ?case
    by (cases op) (simp_all add: click_def hover_def)
qed

lemma lastHovered_fold_run_op:
  "list_all (\<lambda>op. \<not> is_hover op) ops \<Longrightarrow>
   lastHovered (fold run_op ops s) = lastHovered s"
proof (induction ops arbitrary: s)
  case Nil
  show ?case by simp
next
  case (Cons op ops)
  then show ?case
    by (cases op) (simp_all add: click_def extractUserClicks_def)
qed

text \<open>
  Claim C4. Whatever the state \<open>s\<close> at a first drain, the clicks \<open>ps\<close> recorded after it
  are exactly what the next drain returns, in arrival order, and that drain leaves the
  queue empty; the same holds when hovers are recorded between the clicks. A drain of an
  empty queue returns the empty list and changes nothing: right after another drain, and
  on the fresh buffer. No case of \<open>extractUserClicks\<close> throws: it has no error result.
\<close>

theorem extractUserClicks_between_drains:
  "fst (extractUserClicks (fold click ps (snd (extractUserClicks s)))) = ps
   \<and> userClicks (snd (extractUserClicks (fold click ps (snd (extractUserClicks s))))) = []
   \<and> (list_all is_record_op ops \<longrightarrow>
        fst (extractUserClicks (fold run_op ops (snd (extractUserClicks s)))) = clicked ops)
   \<and> extractUserClicks (s\<lparr>userClicks := []\<rparr>) = ([], s\<lparr>userClicks := []\<rparr>)
   \<and> extractUserClicks (snd (extractUserClicks s)) = ([], snd (extractUserClicks s))
   \<and> extractUserClicks createUserEventsState = ([], createUserEventsState)"
proof -
  let ?s1 = "snd (extractUserClicks s)"
  have empty: "userClicks ?s1 = []"
    by (simp add: extractUserClicks_def)
  have a: "fst (extractUserClicks (fold click ps ?s1)) = ps"
    using empty by (simp add: extractUserClicks_def userClicks_fold_click)
  have b: "userClicks (snd (extractUserClicks (fold click ps ?s1))) = []"
    by (simp add: extractUserClicks_def)
  have c: "list_all is_record_op ops \<longrightarrow>
      fst (extractUserClicks (fold run_op ops ?s1)) = clicked ops"
    using empty by (simp add: extractUserClicks_def userClicks_fold_run_op)
  have d: "extractUserClicks (s\<lparr>userClicks := []\<rparr>) = ([], s\<lparr>userClicks := []\<rparr>)"
    by (simp add: extractUserClicks_def)
  have e: "extractUserClicks ?s1 = ([], ?s1)"
    by (simp add: extractUserClicks_def)
  have f: "extractUserClicks createUserEventsState = ([], createUserEventsState)"
    by (simp add: extractUserClicks_def createUserEventsState_def)
  from a b c d e f show ?thesis by blast
qed

text \<open>
  The witness: three clicks with a hover between them, recorded after a drain of a
  buffer that held an older click.
\<close>

theorem extractUserClicks_between_drains_witness:
  "list_all is_record_op
     [OpClick \<lparr>pos_x = 1, pos_y = 2\<rparr>, OpHover \<lparr>pos_x = 4, pos_y = 4\<rparr>,
      OpClick \<lparr>pos_x = 3, pos_y = 0\<rparr>, OpClick \<lparr>pos_x = 1, pos_y = 2\<rparr>]
   \<and> fst (extractUserClicks
        (fold run_op
           [OpClick \<lparr>pos_x = 1, pos_y = 2\<rparr>, OpHover \<lparr>pos_x = 4, pos_y = 4\<rparr>,
            OpClick \<lparr>pos_x = 3, pos_y = 0\<rparr>, OpClick \<lparr>pos_x = 1, pos_y = 2\<rparr>]
           (snd (extractUserClicks (click \<lparr>pos_x = 7, pos_y = 7\<rparr> createUserEventsState)))))
     = [\<lparr>pos_x = 1, pos_y = 2\<rparr>, \<lparr>pos_x = 3, pos_y = 0\<rparr>, \<lparr>pos_x = 1, pos_y = 2\<rparr>]"
  using extractUserClicks_between_drains
    [of "[]" "click \<lparr>pos_x = 7, pos_y = 7\<rparr> createUserEventsState"
        "[OpClick \<lparr>pos_x = 1, pos_y = 2\<rparr>, OpHover \<lparr>pos_x = 4, pos_y = 4\<rparr>,
          OpClick \<lparr>pos_x = 3, pos_y = 0\<rparr>, OpClick \<lparr>pos_x = 1, pos_y = 2\<rparr>]"]
  by simp

text \<open>
  Claim C5. On the fresh buffer the hover value is \<^verbatim>\<open>null\<close>, and stays so under every
  run of operations that records no hover. After \<open>hover p1\<close> and then \<open>hover p2\<close>, the
  value read is \<open>p2\<close> after every run of clicks, drains and reads of the value, and a
  third \<open>hover p3\<close> replaces it. A drain leaves the value as it was.
\<close>

theorem lastHovered_last_write_wins:
  "lastHovered createUserEventsState = None
   \<and> (list_all (\<lambda>op. \<not> is_hover op) ops \<longrightarrow>
        lastHovered (fold run_op ops createUserEventsState) = None
        \<and> lastHovered (fold run_op ops (hover p2 (hover p1 s))) = Some p2
        \<and> lastHovered (hover p3 (fold run_op ops (hover p2 (hover p1 s)))) = Some p3)
   \<and> lastHovered (snd (extractUserClicks s)) = lastHovered s"
  by (simp add: lastHovered_fold_run_op createUserEventsState_def hover_def
      extractUserClicks_def)

theorem lastHovered_last_write_wins_witness:
  "list_all (\<lambda>op. \<not> is_hover op)
     [OpReadLastHovered, OpClick \<lparr>pos_x = 0, pos_y = 0\<rparr>, OpExtractUserClicks, OpReadLastHovered]
   \<and> lastHovered
        (fold run_op
           [OpReadLastHovered, OpClick \<lparr>pos_x = 0, pos_y = 0\<rparr>, OpExtractUserClicks,
            OpReadLastHovered]
           (hover \<lparr>pos_x = 2, pos_y = 5\<rparr> (hover \<lparr>pos_x = 1, pos_y = 1\<rparr> createUserEventsState)))
     = Some \<lparr>pos_x = 2, pos_y = 5\<rparr>"
  using lastHovered_last_write_wins
    [of "[OpReadLastHovered, OpClick \<lparr>pos_x = 0, pos_y = 0\<rparr>, OpExtractUserClicks,
          OpReadLastHovered]"
        "\<lparr>pos_x = 2, pos_y = 5\<rparr>" "\<lparr>pos_x = 1, pos_y = 1\<rparr>" createUserEventsState]
  by simp

section \<open>Properties of letter resolution\<close>

text \<open>
  Claim C7. For a code that \<^verbatim>\<open>is_empty_cell\<close> accepts, \<open>getLetter\<close> returns \<^verbatim>\<open>null\<close>
  without an exception and without a single call to the table, whatever the context
  is, even when none was ever stored.
\<close>

theorem getLetter_empty_code:
  "is_empty_cell c \<Longrightarrow> getLetter is_empty_cell ctx c = (Inr None, [])"
  by (simp add: getLetter_def)

theorem getLetter_empty_code_witness:
  "demo_is_empty_cell 0
   \<and> getLetter demo_is_empty_cell (initLettersTableContext demo_table) 0 = (Inr None, [])
   \<and> getLetter demo_is_empty_cell None 0 = (Inr None, [])"
  using getLetter_empty_code [of demo_is_empty_cell 0 "initLettersTableContext demo_table"]
    getLetter_empty_code [of demo_is_empty_cell 0 None]
  by (simp add: demo_is_empty_cell_def)

text \<open>
  Claim C2, as the specification states it, fails: for the code 9, which is not empty
  and has no entry in the example table, \<open>getLetter\<close> throws nothing and returns a
  letter whose character and score are both \<^verbatim>\<open>undefined\<close>.
\<close>

theorem getLetter_missing_entry_counterexample:
  "\<not> demo_is_empty_cell 9
   \<and> try_get_letter_char demo_table 9 = None
   \<and> try_get_letter_score demo_table 9 = None
   \<and> getLetter demo_is_empty_cell (initLettersTableContext demo_table) 9
       = (Inr (Some \<lparr>index = 9, char = None, score = None\<rparr>),
          [CallGetLetter 9, CallGetScore 9])"
  by (simp add: getLetter_def initLettersTableContext_def demo_table_def
      demo_is_empty_cell_def)

text \<open>
  Claim C2, amended. For every code \<open>c\<close> that is not empty and for which the bound
  table has neither a character nor a score, \<open>getLetter\<close> raises no error: after
  asking the table for both, it returns a letter with index \<open>c\<close> whose character and
  score are absent.
\<close>

theorem getLetter_missing_entry:
  "\<not> is_empty_cell c \<Longrightarrow> try_get_letter_char t c = None
   \<Longrightarrow> try_get_letter_score t c = None
   \<Longrightarrow> getLetter is_empty_cell (initLettersTableContext t) c
       = (Inr (Some \<lparr>index = c, char = None, score = None\<rparr>),
          [CallGetLetter c, CallGetScore c])"
  by (simp add: getLetter_def initLettersTableContext_def)

theorem getLetter_missing_entry_witness:
  "\<not> demo_is_empty_cell 3
   \<and> try_get_letter_char demo_table 3 = None
   \<and> try_get_letter_score demo_table 3 = None
   \<and> getLetter demo_is_empty_cell (initLettersTableContext demo_table) 3
       = (Inr (Some \<lparr>index = 3, char = None, score = None\<rparr>),
          [CallGetLetter 3, CallGetScore 3])"
  using getLetter_missing_entry [of demo_is_empty_cell 3 demo_table]
  by (simp add: demo_is_empty_cell_def demo_table_def)

lemma getWord_first_empty:
  "find is_empty_cell codes = Some k \<Longrightarrow>
   fst (getWord is_empty_cell (Some t) codes) = Inl (InvalidLetterIndexInWord k)"
proof (induction codes)
  case Nil
  then show ?case by simp
next
  case (Cons i rest)
  then show ?case
    by (cases "is_empty_cell i") (auto simp: getLetter_def split: prod.splits sum.splits)
qed

lemma getWord_empty_throws:
  "c \<in> set codes \<Longrightarrow> is_empty_cell c \<Longrightarrow> isl (fst (getWord is_empty_cell ctx codes))"
proof (induction codes)
  case Nil
  then show ?case by simp
next
  case (Cons i rest)
  then show ?case
    by (cases "is_empty_cell i"; cases ctx)
      (auto simp: getLetter_def split: prod.splits sum.splits)
qed

lemma find_member:
  "c \<in> set codes \<Longrightarrow> P c \<Longrightarrow> \<exists>k. find P codes = Some k"
  by (induction codes) auto

text \<open>
  Claim C8. When a list of codes holds an empty code, \<open>getWord\<close> throws, whatever the
  context. With a context bound, what it throws is the error
  \<^verbatim>\<open>Invalid letter index in word\<close> (the specification's \<open>LookupError\<close>), for the first
  empty code of the list.
\<close>

theorem getWord_empty_code:
  "c \<in> set codes \<Longrightarrow> is_empty_cell c
   \<Longrightarrow> isl (fst (getWord is_empty_cell ctx codes))
     \<and> (\<exists>k. find is_empty_cell codes = Some k
           \<and> fst (getWord is_empty_cell (Some t) codes) = Inl (InvalidLetterIndexInWord k))"
proof -
  assume mem: "c \<in> set codes" and emp: "is_empty_cell c"
  from find_member [of c codes is_empty_cell] mem emp
  obtain k where k: "find is_empty_cell codes = Some k"
    by blast
  have thrown: "isl (fst (getWord is_empty_cell ctx codes))"
    using getWord_empty_throws [of c codes is_empty_cell ctx] mem emp by simp
  have which: "fst (getWord is_empty_cell (Some t) codes) = Inl (InvalidLetterIndexInWord k)"
    using getWord_first_empty [of is_empty_cell codes k t] k by simp
  from thrown which k show ?thesis by blast
qed

text \<open>The witness is the scenario of the specification, with 0 as the empty code.\<close>

theorem getWord_empty_code_witness:
  "(0::int) \<in> set [5, 0, 7] \<and> demo_is_empty_cell 0
   \<and> fst (getWord demo_is_empty_cell (initLettersTableContext demo_table) [5, 0, 7])
       = Inl (InvalidLetterIndexInWord 0)"
  using getWord_empty_code [of 0 "[5, 0, 7]" demo_is_empty_cell None
      "\<lparr>ctx_getLetter = (\<lambda>i. try_get_letter_char demo_table i),
        ctx_getScore = (\<lambda>i. try_get_letter_score demo_table i)\<rparr>"]
  by (simp add: demo_is_empty_cell_def initLettersTableContext_def)

section \<open>Properties of the triplets slice\<close>

lemma length_build_triplets:
  "length (build_triplets raw i acc) = length acc + (length raw - i + 2) div 3"
proof (induction raw i acc rule: build_triplets.induct)
  case (1 raw i acc)
  show ?case
  proof (cases "i < length raw")
    case True
    with "1" show ?thesis
      by (subst build_triplets.simps) (simp, arith)
  next
    case False
    then show ?thesis
      by (subst build_triplets.simps) simp
  qed
qed

lemma total_triplets_create:
  "total_triplets (createTripletsState raw) = (length raw + 2) div 3"
  by (simp add: total_triplets_def createTripletsState_def length_build_triplets)

lemma next_triplet_in_range:
  "0 \<le> i \<Longrightarrow> i < int (total_triplets s)
   \<Longrightarrow> next_triplet (updateIndex i s) = Inr (Some (triplets s ! nat i))"
  by (simp add: next_triplet_def updateIndex_def total_triplets_def js_index_def)

text \<open>
  Claim C1, as the specification states it, fails: six raw codes make a sequence of two
  triplets, \<open>updateIndex\<close> accepts the index 2, and \<open>next_triplet\<close> then returns
  \<^verbatim>\<open>undefined\<close>. Nothing is thrown.
\<close>

theorem next_triplet_index_error_counterexample:
  "total_triplets (createTripletsState [5, 7, 5, 7, 5, 7]) = 2
   \<and> \<not> isl (next_triplet (updateIndex 2 (createTripletsState [5, 7, 5, 7, 5, 7])))
   \<and> next_triplet (updateIndex 2 (createTripletsState [5, 7, 5, 7, 5, 7])) = Inr None"
  by (simp add: total_triplets_create next_triplet_def updateIndex_def js_index_def
      total_triplets_def [symmetric])

text \<open>
  Claim C1, amended. For every triplet sequence of length \<open>n\<close> and every index \<open>i\<close> with
  \<open>i \<ge> n\<close>, \<open>updateIndex\<close> stores \<open>i\<close> unchecked and the getter \<^verbatim>\<open>next\<close> raises no error:
  it returns \<^verbatim>\<open>undefined\<close>.
\<close>

theorem next_triplet_beyond_end:
  "int (total_triplets s) \<le> i
   \<Longrightarrow> currentIndex (updateIndex i s) = i \<and> next_triplet (updateIndex i s) = Inr None"
  by (simp add: next_triplet_def updateIndex_def total_triplets_def js_index_def)

theorem next_triplet_beyond_end_witness:
  "int (total_triplets (createTripletsState [5, 7, 5, 7, 5, 7, 5])) \<le> 3
   \<and> currentIndex (updateIndex 3 (createTripletsState [5, 7, 5, 7, 5, 7, 5])) = 3
   \<and> next_triplet (updateIndex 3 (createTripletsState [5, 7, 5, 7, 5, 7, 5])) = Inr None"
  using next_triplet_beyond_end [of "createTripletsState [5, 7, 5, 7, 5, 7, 5]" 3]
  by (simp add: total_triplets_create)

section \<open>Properties of grid reconstruction\<close>

lemma find_snoc:
  "find P (xs @ [x]) =
     (case find P xs of None \<Rightarrow> (if P x then Some x else None) | Some r \<Rightarrow> Some r)"
  by (induction xs) simp_all

lemma grid_entry_grid_step:
  "grid_entry (grid_step g c) x y =
     (if pos_x (position c) = x \<and> pos_y (position c) = y then Some c else grid_entry g x y)"
  by (simp add: grid_entry_def grid_step_def Let_def split: option.splits)

lemma grid_entry_foldl:
  "grid_entry (foldl grid_step g raw) x y =
     (case last_at raw x y of None \<Rightarrow> grid_entry g x y | Some c \<Rightarrow> Some c)"
proof (induction raw arbitrary: g)
  case Nil
  show ?case by (simp add: last_at_def)
next
  case (Cons c raw)
  show ?case
    by (simp add: Cons.IH grid_entry_grid_step last_at_def find_snoc split: option.splits)
qed

lemma grid_entry_empty: "grid_entry Map.empty x y = None"
  by (simp add: grid_entry_def)

lemma last_at_position:
  "last_at raw x y = Some c \<Longrightarrow> position c = \<lparr>pos_x = x, pos_y = y\<rparr>"
  by (auto simp: last_at_def find_Some_iff)

text \<open>
  What \<open>last_at\<close> finds is a record of the list at that position with no record at that
  position after it.
\<close>

lemma last_at_is_last:
  "last_at raw x y = Some c \<Longrightarrow>
   \<exists>before after. raw = before @ c # after
     \<and> list_all (\<lambda>d. position d \<noteq> \<lparr>pos_x = x, pos_y = y\<rparr>) after"
proof (induction raw rule: rev_induct)
  case Nil
  then show ?case by (simp add: last_at_def)
next
  case (snoc d raw)
  show ?case
  proof (cases "pos_x (position d) = x \<and> pos_y (position d) = y")
    case True
    with snoc.prems have "c = d"
      by (simp add: last_at_def)
    then have "raw @ [d] = raw @ c # [] \<and> list_all (\<lambda>d. position d \<noteq> \<lparr>pos_x = x, pos_y = y\<rparr>) []"
      by simp
    then show ?thesis by blast
  next
    case False
    with snoc.prems have "last_at raw x y = Some c"
      by (simp add: last_at_def)
    from snoc.IH [OF this] obtain before after where
      split: "raw = before @ c # after"
      and none: "list_all (\<lambda>d. position d \<noteq> \<lparr>pos_x = x, pos_y = y\<rparr>) after"
      by blast
    from False have "position d \<noteq> \<lparr>pos_x = x, pos_y = y\<rparr>"
      by auto
    with split none have "raw @ [d] = before @ c # (after @ [d])
        \<and> list_all (\<lambda>d. position d \<noteq> \<lparr>pos_x = x, pos_y = y\<rparr>) (after @ [d])"
      by simp
    then show ?thesis by blast
  qed
qed

text \<open>
  Claim C6. For every list of cell records and every \<open>x\<close> and \<open>y\<close>, the entry
  \<^verbatim>\<open>grid[x][y]\<close> of the reconstructed grid is the last record of the list that stands at
  \<open>(x, y)\<close>, and there is no entry when the list has no record there; so the position of
  every entry is its place in the grid.
\<close>

theorem transformToGrid_last_write_wins:
  "grid_entry (transformToGrid raw) x y = last_at raw x y
   \<and> (grid_entry (transformToGrid raw) x y = Some c \<longrightarrow>
        position c = \<lparr>pos_x = x, pos_y = y\<rparr>)"
  by (simp add: transformToGrid_def grid_entry_foldl grid_entry_empty last_at_position
      split: option.splits)

text \<open>
  The witness has two records at \<open>(0, 0)\<close>: the entry there is the later one, with the
  letter 7.
\<close>

theorem transformToGrid_last_write_wins_witness:
  "grid_entry (transformToGrid [demo_cell 0 0 5, demo_cell 0 1 0, demo_cell 0 0 7]) 0 0
     = Some (demo_cell 0 0 7)
   \<and> position (demo_cell 0 0 7) = \<lparr>pos_x = 0, pos_y = 0\<rparr>"
  using transformToGrid_last_write_wins
    [of "[demo_cell 0 0 5, demo_cell 0 1 0, demo_cell 0 0 7]" 0 0 "demo_cell 0 0 7"]
  by (simp add: last_at_def demo_cell_def)

section \<open>Properties of the frame driver\<close>

lemma lastFrame_tick: "lastFrame (fst (tick eng now st)) = now"
  by (simp add: tick_def Let_def extractUserClicks_def split: sum.splits prod.splits)

lemma deltas_tick:
  "deltas (fst (tick eng now st)) =
     deltas st @ [if lastFrame st = 0 then 0 else now - lastFrame st]"
  by (simp add: tick_def Let_def deltas_def extractUserClicks_def
      split: sum.splits prod.splits)

lemma lastFrame_create: "lastFrame (createGameState g) = 0"
  by (simp add: createGameState_def)

lemma deltas_create: "deltas (createGameState g) = []"
  by (simp add: createGameState_def deltas_def)

lemma ticks_one: "ticks eng [a] st = fst (tick eng a st)"
  by (simp add: ticks_def)

lemma ticks_two: "ticks eng [a, b] st = fst (tick eng b (fst (tick eng a st)))"
  by (simp add: ticks_def)

lemma ticks_three:
  "ticks eng [a, b, c] st = fst (tick eng c (fst (tick eng b (fst (tick eng a st)))))"
  by (simp add: ticks_def)

text \<open>
  Claim C3, as the specification states it, fails on its second sentence. After a first
  call \<open>tick 0\<close> the reference time is still 0, and the following call \<open>tick 5\<close> reports
  the delta 0, not \<open>5 - 0\<close>.
\<close>

theorem tick_delta_counterexample:
  "lastFrame (ticks demo_engine [0] (createGameState demo_game)) = 0
   \<and> deltas (ticks demo_engine [0, 5] (createGameState demo_game)) = [0, 0]
   \<and> deltas (ticks demo_engine [0, 5] (createGameState demo_game))
       \<noteq> [0, 5 - lastFrame (ticks demo_engine [0] (createGameState demo_game))]"
  by (simp add: ticks_one ticks_two lastFrame_tick deltas_tick lastFrame_create
      deltas_create)

text \<open>
  Claim C3, amended. The first call of \<open>tick\<close>, on the state that \<open>createGameState\<close>
  builds, hands the engine the delta 0 and stores its argument as \<open>lastFrame\<close>. Every
  call stores its argument as \<open>lastFrame\<close>, and every call that finds \<open>lastFrame\<close>
  different from 0 hands the engine the delta \<open>now - lastFrame\<close>. The calls
  \<open>tick 1000\<close> and \<open>tick 1016\<close> give the deltas 0 and 16 and leave \<open>lastFrame\<close> at 1016.
\<close>

theorem tick_delta:
  "deltas (fst (tick eng now (createGameState g))) = [0]
   \<and> lastFrame (fst (tick eng now (createGameState g))) = now
   \<and> (lastFrame st \<noteq> 0 \<longrightarrow>
        deltas (fst (tick eng now st)) = deltas st @ [now - lastFrame st])
   \<and> lastFrame (fst (tick eng now st)) = now
   \<and> deltas (ticks eng [1000, 1016] (createGameState g)) = [0, 16]
   \<and> lastFrame (ticks eng [1000, 1016] (createGameState g)) = 1016"
  by (simp add: ticks_two lastFrame_tick deltas_tick lastFrame_create deltas_create)

theorem tick_delta_witness:
  "lastFrame (ticks demo_engine [1000] (createGameState demo_game)) \<noteq> 0
   \<and> deltas (fst (tick demo_engine 1016 (ticks demo_engine [1000] (createGameState demo_game))))
       = deltas (ticks demo_engine [1000] (createGameState demo_game)) @ [16]
   \<and> deltas (ticks demo_engine [1000, 1016] (createGameState demo_game)) = [0, 16]
   \<and> lastFrame (ticks demo_engine [1000, 1016] (createGameState demo_game)) = 1016"
  using tick_delta [of demo_engine 1016 demo_game
      "ticks demo_engine [1000] (createGameState demo_game)"]
  by (simp add: ticks_one lastFrame_tick)

text \<open>
  Claim C10. When the first call is \<open>tick 0\<close>, \<open>lastFrame\<close> stays at the sentinel 0; the
  next call \<open>tick t\<close> with \<open>t > 0\<close> reports the delta 0 again and sets \<open>lastFrame\<close> to
  \<open>t\<close>; the third call \<open>tick u\<close> is the first to report a difference, \<open>u - t\<close>.
\<close>

theorem tick_first_frame_at_zero:
  "0 < t \<Longrightarrow>
   lastFrame (ticks eng [0] (createGameState g)) = 0
   \<and> deltas (ticks eng [0, t] (createGameState g)) = [0, 0]
   \<and> lastFrame (ticks eng [0, t] (createGameState g)) = t
   \<and> deltas (ticks eng [0, t, u] (createGameState g)) = [0, 0, u - t]"
  by (simp add: ticks_one ticks_two ticks_three lastFrame_tick deltas_tick
      lastFrame_create deltas_create)

theorem tick_first_frame_at_zero_witness:
  "(0::int) < 7
   \<and> lastFrame (ticks demo_engine [0] (createGameState demo_game)) = 0
   \<and> deltas (ticks demo_engine [0, 7] (createGameState demo_game)) = [0, 0]
   \<and> lastFrame (ticks demo_engine [0, 7] (createGameState demo_game)) = 7
   \<and> deltas (ticks demo_engine [0, 7, 30] (createGameState demo_game)) = [0, 0, 23]"
  using tick_first_frame_at_zero [of 7 demo_engine demo_game 30]
  by simp

text \<open>
  The other branch, for comparison: when the engine's step returns, every slice takes
  its new value, the click queue is empty and one more frame is requested.
\<close>

lemma tick_engine_success:
  "eng (wasmGame st) (now - (if lastFrame st = 0 then now else lastFrame st))
      (userClicks (st_userEvents st)) (lastHovered (st_userEvents st)) = Inr (snapshot, g)
   \<Longrightarrow> snd (tick eng now st) = Inr ()
     \<and> remaining (st_clock (fst (tick eng now st))) = clock_remaining_ms snapshot
     \<and> grid (st_grid (fst (tick eng now st))) = Some (transformToGrid (snapshot_grid snapshot))
     \<and> current (st_score (fst (tick eng now st))) = wasm_score g
     \<and> currentIndex (st_triplets (fst (tick eng now st))) = triplets_current_index g
     \<and> words (st_foundWords (fst (tick eng now st))) = found_words snapshot
     \<and> wasmGame (fst (tick eng now st)) = g
     \<and> userClicks (st_userEvents (fst (tick eng now st))) = []
     \<and> frameRequests (fst (tick eng now st)) = Suc (frameRequests st)"
  by (simp add: tick_def Let_def extractUserClicks_def clock_update_def grid_update_def
      score_update_def updateIndex_def foundWords_update_def)

lemma demo_first_frame:
  "frameRequests (ticks demo_engine [1000] (createGameState demo_game)) = 2
   \<and> remaining (st_clock (ticks demo_engine [1000] (createGameState demo_game))) = 20000"
  by (simp add: ticks_one tick_def Let_def extractUserClicks_def createGameState_def
      demo_engine_def demo_game_def clock_update_def createUserEventsState_def createClockState_def)

text \<open>
  Claim C9. When the engine's step throws \<open>e\<close> on the arguments that \<open>tick\<close> hands
  it, \<open>tick\<close> ends with \<open>e\<close>; it has updated no slice, has not called
  \<^verbatim>\<open>requestAnimationFrame\<close>, and has called the engine once.
\<close>

theorem tick_engine_failure:
  "eng (wasmGame st) (now - (if lastFrame st = 0 then now else lastFrame st))
      (userClicks (st_userEvents st)) (lastHovered (st_userEvents st)) = Inl e
   \<Longrightarrow> snd (tick eng now st) = Inl e
     \<and> st_clock (fst (tick eng now st)) = st_clock st
     \<and> st_grid (fst (tick eng now st)) = st_grid st
     \<and> st_score (fst (tick eng now st)) = st_score st
     \<and> st_triplets (fst (tick eng now st)) = st_triplets st
     \<and> st_foundWords (fst (tick eng now st)) = st_foundWords st
     \<and> frameRequests (fst (tick eng now st)) = frameRequests st
     \<and> length (engineCalls (fst (tick eng now st))) = Suc (length (engineCalls st))"
  by (simp add: tick_def Let_def extractUserClicks_def)

text \<open>
  The witness: after a first frame at 1000 the host calls \<open>tick 900\<close>; the example
  engine throws on the negative delta, and the clock slice and the count of requested
  frames are what the first frame left.
\<close>

theorem tick_engine_failure_witness:
  "demo_engine (wasmGame (ticks demo_engine [1000] (createGameState demo_game)))
      (900 - (if lastFrame (ticks demo_engine [1000] (createGameState demo_game)) = 0 then 900
              else lastFrame (ticks demo_engine [1000] (createGameState demo_game))))
      (userClicks (st_userEvents (ticks demo_engine [1000] (createGameState demo_game))))
      (lastHovered (st_userEvents (ticks demo_engine [1000] (createGameState demo_game))))
     = Inl (EngineError ''negative delta'')
   \<and> snd (tick demo_engine 900 (ticks demo_engine [1000] (createGameState demo_game)))
       = Inl (EngineError ''negative delta'')
   \<and> frameRequests (fst (tick demo_engine 900 (ticks demo_engine [1000] (createGameState demo_game)))) = 2
   \<and> remaining (st_clock (fst (tick demo_engine 900 (ticks demo_engine [1000] (createGameState demo_game))))) = 20000"
proof -
  let ?st = "ticks demo_engine [1000] (createGameState demo_game)"
  have fails: "demo_engine (wasmGame ?st) (900 - (if lastFrame ?st = 0 then 900 else lastFrame ?st))
      (userClicks (st_userEvents ?st)) (lastHovered (st_userEvents ?st))
     = Inl (EngineError ''negative delta'')"
    by (simp add: ticks_one lastFrame_tick demo_engine_def)
  from tick_engine_failure [of demo_engine ?st 900 "EngineError ''negative delta''", OF fails] fails demo_first_frame
  show ?thesis by simp
qed

end
